theory Spec2Isabelle
  imports Complex_Main
begin

section \<open>Crowding correction and export of a TESS light curve\<close>

text \<open>
  The notebook \<^verbatim>\<open>tess_cbvs_correction_toi-560.ipynb\<close> authors three pieces of
  arithmetic itself: the crowding correction (cell 48), the normalisation (cell 54) and
  the loop that writes the text file (cell 55). Everything upstream is a call into
  lightkurve. This theory embeds those three cells.
\<close>

subsection \<open>Numbers: numpy's float64 with its special values\<close>

text \<open>
  A numpy float is a finite number, one of the two infinities, or NaN. Arithmetic on
  numpy arrays never raises: a division by zero gives an infinity or NaN (numpy only
  prints a RuntimeWarning). The special values are therefore part of the model.
  Finite values are exact reals: rounding, overflow to infinity and the sign of zero
  are not modelled, so a division by zero takes the sign of its numerator.
\<close>

datatype npfloat = Num real | PosInf | NegInf | NaN

fun is_finite :: "npfloat \<Rightarrow> bool" where
  "is_finite (Num a) = True"
| "is_finite PosInf = False"
| "is_finite NegInf = False"
| "is_finite NaN = False"

fun fneg :: "npfloat \<Rightarrow> npfloat" where
  "fneg (Num a) = Num (- a)"
| "fneg PosInf = NegInf"
| "fneg NegInf = PosInf"
| "fneg NaN = NaN"

fun fadd :: "npfloat \<Rightarrow> npfloat \<Rightarrow> npfloat" where
  "fadd (Num a) (Num b) = Num (a + b)"
| "fadd (Num a) PosInf = PosInf"
| "fadd (Num a) NegInf = NegInf"
| "fadd PosInf (Num b) = PosInf"
| "fadd PosInf PosInf = PosInf"
| "fadd PosInf NegInf = NaN"
| "fadd NegInf (Num b) = NegInf"
| "fadd NegInf PosInf = NaN"
| "fadd NegInf NegInf = NegInf"
| "fadd NaN y = NaN"
| "fadd x NaN = NaN"

definition fsub :: "npfloat \<Rightarrow> npfloat \<Rightarrow> npfloat" where
  "fsub x y = fadd x (fneg y)"

text \<open>The sign of a finite number decides the sign of an infinite product or quotient.\<close>

definition signed_inf :: "real \<Rightarrow> npfloat" where
  "signed_inf a = (if a = 0 then NaN else if 0 < a then PosInf else NegInf)"

fun fmul :: "npfloat \<Rightarrow> npfloat \<Rightarrow> npfloat" where
  "fmul (Num a) (Num b) = Num (a * b)"
| "fmul (Num a) PosInf = signed_inf a"
| "fmul (Num a) NegInf = signed_inf (- a)"
| "fmul PosInf (Num b) = signed_inf b"
| "fmul PosInf PosInf = PosInf"
| "fmul PosInf NegInf = NegInf"
| "fmul NegInf (Num b) = signed_inf (- b)"
| "fmul NegInf PosInf = NegInf"
| "fmul NegInf NegInf = PosInf"
| "fmul NaN y = NaN"
| "fmul x NaN = NaN"

fun fdiv :: "npfloat \<Rightarrow> npfloat \<Rightarrow> npfloat" where
  "fdiv (Num a) (Num b) = (if b = 0 then signed_inf a else Num (a / b))"
| "fdiv (Num a) PosInf = Num 0"
| "fdiv (Num a) NegInf = Num 0"
| "fdiv PosInf (Num b) = (if b < 0 then NegInf else PosInf)"
| "fdiv NegInf (Num b) = (if b < 0 then PosInf else NegInf)"
| "fdiv PosInf PosInf = NaN"
| "fdiv PosInf NegInf = NaN"
| "fdiv NegInf PosInf = NaN"
| "fdiv NegInf NegInf = NaN"
| "fdiv NaN y = NaN"
| "fdiv x NaN = NaN"

subsection \<open>numpy's mean and median\<close>

text \<open>
  \<^verbatim>\<open>np.mean(a)\<close> is the sum divided by the number of elements; on an empty array
  that is \<open>0.0 / 0\<close>, NaN.
\<close>

fun fsum :: "npfloat list \<Rightarrow> npfloat" where
  "fsum [] = Num 0"
| "fsum (x # xs) = fadd x (fsum xs)"

definition np_mean :: "npfloat list \<Rightarrow> npfloat" where
  "np_mean a = fdiv (fsum a) (Num (real (length a)))"

text \<open>numpy's sort order: minus infinity, the finite values, plus infinity, then NaN.\<close>

fun fle :: "npfloat \<Rightarrow> npfloat \<Rightarrow> bool" where
  "fle x NaN = True"
| "fle NaN y = False"
| "fle NegInf y = True"
| "fle x NegInf = False"
| "fle x PosInf = True"
| "fle PosInf y = False"
| "fle (Num a) (Num b) = (a \<le> b)"

fun np_insert :: "npfloat \<Rightarrow> npfloat list \<Rightarrow> npfloat list" where
  "np_insert x [] = [x]"
| "np_insert x (y # ys) = (if fle x y then x # y # ys else y # np_insert x ys)"

fun np_sort :: "npfloat list \<Rightarrow> npfloat list" where
  "np_sort [] = []"
| "np_sort (x # xs) = np_insert x (np_sort xs)"

text \<open>
  \<^verbatim>\<open>np.median(a)\<close>: NaN on an empty array and on an array that holds a NaN;
  otherwise the mean of the middle element (odd length) or of the two middle elements
  (even length) of the array in sorted order.
\<close>

definition np_median :: "npfloat list \<Rightarrow> npfloat" where
  "np_median a =
     (if a = [] then NaN
      else if NaN \<in> set a then NaN
      else let s = np_sort a; n = length a in
        if odd n then np_mean [s ! (n div 2)]
        else np_mean [s ! (n div 2 - 1), s ! (n div 2)])"

subsection \<open>Cell 48: the crowding correction\<close>

text \<open>
  \<^verbatim>\<open>
  median_flux = np.median(cbvCorrector.corrected_lc.flux.value)
  excess_flux = (1-CROWDSAP)*median_flux
  flux_removed = cbvCorrector.corrected_lc.flux.value  - excess_flux
  flux_corr = flux_removed/FLFRCSAP
  flux_err_corr = cbvCorrector.corrected_lc.flux_err.value/FLFRCSAP
  lc_cbv_corr = lk.LightCurve(time=tpf.time.value, flux=flux_corr, flux_err=flux_err_corr)
  \<close>
  The arguments \<open>fl\<close> and \<open>fe\<close> are the flux and flux error of the CBV-corrected light
  curve, \<open>ts\<close> its time stamps.
\<close>

definition median_flux :: "npfloat list \<Rightarrow> npfloat" where
  "median_flux fl = np_median fl"

definition excess_flux :: "npfloat \<Rightarrow> npfloat list \<Rightarrow> npfloat" where
  "excess_flux CROWDSAP fl = fmul (fsub (Num 1) CROWDSAP) (median_flux fl)"

definition flux_removed :: "npfloat \<Rightarrow> npfloat list \<Rightarrow> npfloat list" where
  "flux_removed CROWDSAP fl = map (\<lambda>x. fsub x (excess_flux CROWDSAP fl)) fl"

definition flux_corr :: "npfloat \<Rightarrow> npfloat \<Rightarrow> npfloat list \<Rightarrow> npfloat list" where
  "flux_corr CROWDSAP FLFRCSAP fl = map (\<lambda>x. fdiv x FLFRCSAP) (flux_removed CROWDSAP fl)"

definition flux_err_corr :: "npfloat \<Rightarrow> npfloat list \<Rightarrow> npfloat list" where
  "flux_err_corr FLFRCSAP fe = map (\<lambda>x. fdiv x FLFRCSAP) fe"

text \<open>
  The light curve object is the three columns. lightkurve's constructor is library code:
  it is taken as the plain record, and whatever validation it performs is not modelled.
\<close>

record LightCurve =
  time :: "npfloat list"
  flux :: "npfloat list"
  flux_err :: "npfloat list"

definition lc_cbv_corr ::
  "npfloat list \<Rightarrow> npfloat list \<Rightarrow> npfloat list \<Rightarrow> npfloat \<Rightarrow> npfloat \<Rightarrow> LightCurve" where
  "lc_cbv_corr ts fl fe CROWDSAP FLFRCSAP =
     \<lparr>time = ts, flux = flux_corr CROWDSAP FLFRCSAP fl, flux_err = flux_err_corr FLFRCSAP fe\<rparr>"

subsection \<open>Cell 54: normalisation\<close>

text \<open>
  \<^verbatim>\<open>
  e = lc_cbv_corr.flux_err/np.mean(lc_cbv_corr.flux)
  f = lc_cbv_corr.flux/np.mean(lc_cbv_corr.flux)
  \<close>
  The notebook's \<open>e\<close> and \<open>f\<close> are \<open>norm_e\<close> and \<open>norm_f\<close> here.
\<close>

definition norm_e :: "LightCurve \<Rightarrow> npfloat list" where
  "norm_e lc = map (\<lambda>x. fdiv x (np_mean (flux lc))) (flux_err lc)"

definition norm_f :: "LightCurve \<Rightarrow> npfloat list" where
  "norm_f lc = map (\<lambda>x. fdiv x (np_mean (flux lc))) (flux lc)"

subsection \<open>Cell 55: writing the file\<close>

text \<open>
  \<^verbatim>\<open>
  with open(fname,'w') as datos:
      for i in range(len(lc_cbv_corr.time)):
          datos.write('{}  {} {} \n'.format(lc_cbv_corr.time[i],f[i],e[i]))
  \<close>
  A written line is kept as the format template with its holes filled: the literal
  pieces as text, each \<^verbatim>\<open>{}\<close> as the number put there. How Python prints a float is
  library behaviour; \<open>render\<close> takes it as the parameter \<open>fmt\<close>. The file is the list of
  the strings handed to \<^verbatim>\<open>write\<close>, in order. Indexing past the end of \<open>f\<close> or \<open>e\<close>
  raises IndexError, the only exception the notebook's own code can raise; the file left
  behind by a run that raised is not part of the result.
\<close>

datatype error = IndexError

datatype piece = Val npfloat | Lit string

type_synonym line = "piece list"

definition format_row :: "npfloat \<Rightarrow> npfloat \<Rightarrow> npfloat \<Rightarrow> line" where
  "format_row t fi ei = [Val t, Lit ''  '', Val fi, Lit '' '', Val ei, Lit [CHR '' '', CHR 0x0A]]"

fun write_rows ::
  "npfloat list \<Rightarrow> npfloat list \<Rightarrow> npfloat list \<Rightarrow> nat list \<Rightarrow> line list \<Rightarrow> error + line list" where
  "write_rows ts f e [] datos = Inr datos"
| "write_rows ts f e (i # rest) datos =
     (if i < length ts \<and> i < length f \<and> i < length e
      then write_rows ts f e rest (datos @ [format_row (ts ! i) (f ! i) (e ! i)])
      else Inl IndexError)"

definition save_data :: "LightCurve \<Rightarrow> npfloat list \<Rightarrow> npfloat list \<Rightarrow> error + line list" where
  "save_data lc f e = write_rows (time lc) f e [0..<length (time lc)] []"

fun render_piece :: "(npfloat \<Rightarrow> string) \<Rightarrow> piece \<Rightarrow> string" where
  "render_piece fmt (Val x) = fmt x"
| "render_piece fmt (Lit s) = s"

definition render :: "(npfloat \<Rightarrow> string) \<Rightarrow> line \<Rightarrow> string" where
  "render fmt l = concat (map (render_piece fmt) l)"

subsection \<open>The notebook from cell 48 to cell 55\<close>

definition notebook ::
  "npfloat list \<Rightarrow> npfloat list \<Rightarrow> npfloat list \<Rightarrow> npfloat \<Rightarrow> npfloat \<Rightarrow> error + line list" where
  "notebook ts fl fe CROWDSAP FLFRCSAP =
     (let lc = lc_cbv_corr ts fl fe CROWDSAP FLFRCSAP;
          e = norm_e lc;
          f = norm_f lc
      in save_data lc f e)"

subsection \<open>The median as the specification words it\<close>

text \<open>
  The standard median of a non-empty sequence of reals: the middle value of the sorted
  sequence, the average of the two middle values when the length is even.
\<close>

definition standard_median :: "real list \<Rightarrow> real" where
  "standard_median xs =
     (let s = sort xs; n = length xs in
      if even n then (s ! (n div 2 - 1) + s ! (n div 2)) / 2 else s ! (n div 2))"

section \<open>Properties\<close>

subsection \<open>On finite values the model is real arithmetic\<close>

lemma np_insert_Num: "np_insert (Num x) (map Num ys) = map Num (insort x ys)"
  by (induction ys) simp_all

lemma np_sort_Num: "np_sort (map Num xs) = map Num (sort xs)"
  by (induction xs) (simp_all add: np_insert_Num)

lemma fsum_Num: "fsum (map Num xs) = Num (sum_list xs)"
  by (induction xs) simp_all

lemma np_mean_Num:
  "xs \<noteq> [] \<Longrightarrow> np_mean (map Num xs) = Num (sum_list xs / real (length xs))"
  by (simp add: np_mean_def fsum_Num)

lemma np_median_Num:
  assumes "xs \<noteq> []"
  shows "np_median (map Num xs) = Num (standard_median xs)"
proof -
  let ?n = "length xs"
  have n: "0 < ?n" using assms by simp
  have mid: "?n div 2 < length (sort xs)" using n by simp
  have "?n div 2 - 1 < ?n" using n by arith
  then have mid1: "?n div 2 - 1 < length (sort xs)" by simp
  show ?thesis
  proof (cases "odd ?n")
    case True
    then show ?thesis
      using assms mid
      by (simp add: np_median_def standard_median_def np_sort_Num np_mean_def Let_def image_iff
          del: length_sort)
  next
    case False
    then show ?thesis
      using assms mid mid1
      by (simp add: np_median_def standard_median_def np_sort_Num np_mean_def Let_def image_iff
          del: length_sort)
  qed
qed

lemma sum_list_divide: "sum_list (map (\<lambda>x. x / m) xs) = sum_list xs / (m::real)"
  by (induction xs) (simp_all add: add_divide_distrib)

lemma fdiv_one: "fdiv x (Num 1) = x"
  by (cases x) simp_all

lemma fmul_NaN_right: "fmul x NaN = NaN"
  by (cases x) simp_all

lemma fdiv_zero_not_finite: "\<not> is_finite (fdiv x (Num 0))"
  by (cases x) (simp_all add: signed_inf_def)

subsection \<open>The columns of the corrected light curve\<close>

lemma lc_fields [simp]:
  "time (lc_cbv_corr ts fl fe C F) = ts"
  "flux (lc_cbv_corr ts fl fe C F) = flux_corr C F fl"
  "flux_err (lc_cbv_corr ts fl fe C F) = flux_err_corr F fe"
  by (simp_all add: lc_cbv_corr_def)

lemma length_flux_corr [simp]: "length (flux_corr C F fl) = length fl"
  by (simp add: flux_corr_def flux_removed_def)

lemma length_flux_err_corr [simp]: "length (flux_err_corr F fe) = length fe"
  by (simp add: flux_err_corr_def)

lemma length_norm_f [simp]: "length (norm_f lc) = length (flux lc)"
  by (simp add: norm_f_def)

lemma length_norm_e [simp]: "length (norm_e lc) = length (flux_err lc)"
  by (simp add: norm_e_def)

lemma flux_removed_Num:
  assumes "xs \<noteq> []"
  shows "flux_removed (Num c) (map Num xs) = map (\<lambda>x. Num (x - (1 - c) * standard_median xs)) xs"
  using assms
  by (simp add: flux_removed_def excess_flux_def median_flux_def np_median_Num fsub_def)

lemma flux_corr_Num:
  assumes "xs \<noteq> []" and "F \<noteq> 0"
  shows "flux_corr (Num c) (Num F) (map Num xs) =
         map (\<lambda>x. Num ((x - (1 - c) * standard_median xs) / F)) xs"
  using assms by (simp add: flux_corr_def flux_removed_Num)

lemma flux_err_corr_Num:
  assumes "F \<noteq> 0"
  shows "flux_err_corr (Num F) (map Num es) = map (\<lambda>x. Num (x / F)) es"
  using assms by (simp add: flux_err_corr_def)

lemma excess_flux_one:
  assumes "xs \<noteq> []"
  shows "excess_flux (Num 1) (map Num xs) = Num 0"
  using assms by (simp add: excess_flux_def median_flux_def np_median_Num fsub_def)

lemma flux_corr_zero_not_finite: "x \<in> set (flux_corr C (Num 0) fl) \<Longrightarrow> \<not> is_finite x"
  by (auto simp: flux_corr_def fdiv_zero_not_finite)

lemma flux_err_corr_zero_not_finite: "x \<in> set (flux_err_corr (Num 0) fe) \<Longrightarrow> \<not> is_finite x"
  by (auto simp: flux_err_corr_def fdiv_zero_not_finite)

subsection \<open>The write loop\<close>

lemma write_rows_upt:
  assumes "n \<le> length ts" and "n \<le> length f" and "n \<le> length e"
  shows "write_rows ts f e [k..<n] datos =
         Inr (datos @ map (\<lambda>i. format_row (ts ! i) (f ! i) (e ! i)) [k..<n])"
  using assms
proof (induction "n - k" arbitrary: k datos)
  case 0
  then show ?case by simp
next
  case (Suc d)
  then have kn: "k < n" by simp
  then have up: "[k..<n] = k # [Suc k..<n]" by (simp add: upt_conv_Cons)
  have d: "d = n - Suc k" using Suc.hyps(2) by simp
  show ?case
    using Suc.hyps(1)[OF d Suc.prems, of "datos @ [format_row (ts ! k) (f ! k) (e ! k)]"] kn Suc.prems
    by (simp add: up)
qed

lemma save_data_rows:
  assumes "length f = length (time lc)" and "length e = length (time lc)"
  shows "save_data lc f e =
         Inr (map (\<lambda>i. format_row (time lc ! i) (f ! i) (e ! i)) [0..<length (time lc)])"
  using assms write_rows_upt[of "length (time lc)" "time lc" f e 0 "[]"]
  by (simp add: save_data_def)

lemma notebook_rows:
  assumes "length fl = length ts" and "length fe = length ts"
  shows "notebook ts fl fe C F =
         Inr (map (\<lambda>i. format_row (ts ! i)
                     (norm_f (lc_cbv_corr ts fl fe C F) ! i)
                     (norm_e (lc_cbv_corr ts fl fe C F) ! i)) [0..<length ts])"
  using assms save_data_rows [of "norm_f (lc_cbv_corr ts fl fe C F)" "lc_cbv_corr ts fl fe C F"
      "norm_e (lc_cbv_corr ts fl fe C F)"]
  by (simp add: notebook_def Let_def)

lemma render_format_row:
  "render fmt (format_row t fi ei) =
     fmt t @ ''  '' @ fmt fi @ '' '' @ fmt ei @ [CHR '' '', CHR 0x0A]"
  by (simp add: render_def format_row_def)

subsection \<open>The specification's worked example, cell by cell\<close>

lemma standard_median_3: "standard_median [100, 110, 90] = 100"
  by (simp add: standard_median_def)

lemma cell48_example:
  "median_flux [Num 100, Num 110, Num 90] = Num 100"
  "excess_flux (Num 0.96) [Num 100, Num 110, Num 90] = Num 4"
  "flux_removed (Num 0.96) [Num 100, Num 110, Num 90] = [Num 96, Num 106, Num 86]"
  "flux_corr (Num 0.96) (Num 0.93) [Num 100, Num 110, Num 90]
     = [Num (96 / 0.93), Num (106 / 0.93), Num (86 / 0.93)]"
  "flux_err_corr (Num 0.93) [Num 5, Num 5, Num 5] = [Num (5 / 0.93), Num (5 / 0.93), Num (5 / 0.93)]"
  by (simp_all add: flux_corr_def flux_err_corr_def flux_removed_def excess_flux_def
      median_flux_def np_median_def np_mean_def fsub_def)

lemma cell54_example:
  "norm_f (lc_cbv_corr ts [Num 100, Num 110, Num 90] [Num 5, Num 5, Num 5] (Num 0.96) (Num 0.93))
     = [Num 1, Num (106 / 96), Num (86 / 96)]"
  "norm_e (lc_cbv_corr ts [Num 100, Num 110, Num 90] [Num 5, Num 5, Num 5] (Num 0.96) (Num 0.93))
     = [Num (5 / 96), Num (5 / 96), Num (5 / 96)]"
  unfolding norm_f_def norm_e_def lc_fields cell48_example
  by (simp_all add: np_mean_def)

lemma norm_small:
  "norm_f (lc_cbv_corr ts [Num 1, Num 3] [Num 1, Num 1] (Num 1) (Num 1)) = [Num (1 / 2), Num (3 / 2)]"
  "norm_e (lc_cbv_corr ts [Num 1, Num 3] [Num 1, Num 1] (Num 1) (Num 1)) = [Num (1 / 2), Num (1 / 2)]"
  by (simp_all add: norm_f_def norm_e_def flux_corr_def flux_err_corr_def flux_removed_def
      excess_flux_def median_flux_def np_median_def np_mean_def fsub_def)

subsection \<open>The crowding correction (cell 48)\<close>

text \<open>
  Claim C1. For non-empty flux and flux error sequences of equal length \<open>n\<close> with finite
  values, and \<open>CROWDSAP\<close> and \<open>FLFRCSAP\<close> in \<open>(0, 1]\<close>, cell 48 produces corrected
  sequences of length \<open>n\<close> with
  \<open>flux_corr[i] = (flux[i] - (1 - CROWDSAP) * median(flux)) / FLFRCSAP\<close> and
  \<open>flux_err_corr[i] = flux_err[i] / FLFRCSAP\<close> at every index, the median being the
  standard one.
\<close>

theorem crowding_correction_formula:
  assumes "xs \<noteq> []" and "length es = length xs"
    and "0 < c" and "c \<le> 1" and "0 < F" and "F \<le> 1"
  shows "length (flux (lc_cbv_corr ts (map Num xs) (map Num es) (Num c) (Num F))) = length xs
    \<and> length (flux_err (lc_cbv_corr ts (map Num xs) (map Num es) (Num c) (Num F))) = length xs
    \<and> (\<forall>i < length xs.
          flux (lc_cbv_corr ts (map Num xs) (map Num es) (Num c) (Num F)) ! i
            = Num ((xs ! i - (1 - c) * standard_median xs) / F)
        \<and> flux_err (lc_cbv_corr ts (map Num xs) (map Num es) (Num c) (Num F)) ! i
            = Num (es ! i / F))"
proof -
  have F: "F \<noteq> 0" using assms(5) by simp
  show ?thesis
    using assms(1,2) F by (simp add: flux_corr_Num flux_err_corr_Num)
qed

theorem crowding_correction_formula_witness:
  "[100, 110, 90 :: real] \<noteq> [] \<and> length [5, 5, 5 :: real] = length [100, 110, 90 :: real]
   \<and> (0::real) < 96 / 100 \<and> (96 / 100 :: real) \<le> 1 \<and> (0::real) < 93 / 100 \<and> (93 / 100 :: real) \<le> 1
   \<and> length (flux (lc_cbv_corr [Num 1, Num 2, Num 3] (map Num [100, 110, 90]) (map Num [5, 5, 5])
         (Num (96 / 100)) (Num (93 / 100)))) = 3
   \<and> flux (lc_cbv_corr [Num 1, Num 2, Num 3] (map Num [100, 110, 90]) (map Num [5, 5, 5])
         (Num (96 / 100)) (Num (93 / 100))) ! 1 = Num (10600 / 93)
   \<and> flux_err (lc_cbv_corr [Num 1, Num 2, Num 3] (map Num [100, 110, 90]) (map Num [5, 5, 5])
         (Num (96 / 100)) (Num (93 / 100))) ! 1 = Num (500 / 93)"
  using crowding_correction_formula [of "[100, 110, 90]" "[5, 5, 5]" "96 / 100" "93 / 100"
      "[Num 1, Num 2, Num 3]"]
  by (simp add: standard_median_3)

text \<open>
  Claim C6 says that \<open>CROWDSAP = 1\<close> leaves \<open>flux_corr\<close> equal to the input flux for every
  valid \<open>FLFRCSAP\<close>. The division by \<open>FLFRCSAP\<close> still takes place: with
  \<open>FLFRCSAP = 0.93\<close> the corrected flux differs from the input.
\<close>

theorem crowdsap_one_counterexample:
  "flux_corr (Num 1) (Num 0.93) [Num 100, Num 110, Num 90] \<noteq> [Num 100, Num 110, Num 90]"
  by (simp add: flux_corr_def flux_removed_def excess_flux_def median_flux_def np_median_def
      np_mean_def fsub_def)

text \<open>
  Claim C6, amended. For a non-empty finite flux sequence and a non-zero \<open>FLFRCSAP\<close>,
  \<open>CROWDSAP = 1\<close> subtracts nothing: \<open>excess_flux\<close> is 0 and \<open>flux_removed\<close> is the input
  flux, so \<open>flux_corr[i] = flux[i] / FLFRCSAP\<close>; \<open>flux_corr\<close> is the input flux when
  \<open>FLFRCSAP\<close> is 1 as well.
\<close>

theorem crowdsap_one_subtracts_nothing:
  assumes "xs \<noteq> []" and "F \<noteq> 0"
  shows "excess_flux (Num 1) (map Num xs) = Num 0
    \<and> flux_removed (Num 1) (map Num xs) = map Num xs
    \<and> flux_corr (Num 1) (Num F) (map Num xs) = map (\<lambda>x. Num (x / F)) xs
    \<and> flux_corr (Num 1) (Num 1) (map Num xs) = map Num xs"
  using assms by (simp add: flux_corr_def flux_removed_def excess_flux_one fsub_def)

theorem crowdsap_one_subtracts_nothing_witness:
  "[100, 110, 90 :: real] \<noteq> [] \<and> (0.93 :: real) \<noteq> 0
   \<and> excess_flux (Num 1) (map Num [100, 110, 90]) = Num 0
   \<and> flux_removed (Num 1) (map Num [100, 110, 90]) = [Num 100, Num 110, Num 90]
   \<and> flux_corr (Num 1) (Num 0.93) (map Num [100, 110, 90])
        = [Num (100 / 0.93), Num (110 / 0.93), Num (90 / 0.93)]
   \<and> flux_corr (Num 1) (Num 1) (map Num [100, 110, 90]) = [Num 100, Num 110, Num 90]"
  using crowdsap_one_subtracts_nothing [of "[100, 110, 90]" "0.93"]
  by simp

text \<open>
  Claim C7. With \<open>FLFRCSAP = 1\<close> nothing is rescaled: for every flux sequence and every
  \<open>CROWDSAP\<close>, \<open>flux_corr\<close> is the flux minus \<open>excess_flux\<close>, and on finite values
  \<open>flux_corr[i] = flux[i] - (1 - CROWDSAP) * median(flux)\<close> at every index.
\<close>

theorem flfrcsap_one_no_rescale:
  "flux_corr C (Num 1) fl = map (\<lambda>x. fsub x (excess_flux C fl)) fl
   \<and> (\<forall>i < length xs. flux_corr (Num c) (Num 1) (map Num xs) ! i
          = Num (xs ! i - (1 - c) * standard_median xs))"
proof -
  have "flux_corr C (Num 1) fl = map (\<lambda>x. fsub x (excess_flux C fl)) fl"
    by (simp add: flux_corr_def flux_removed_def fdiv_one)
  moreover have "flux_corr (Num c) (Num 1) (map Num xs) ! i
      = Num (xs ! i - (1 - c) * standard_median xs)" if "i < length xs" for i
  proof -
    have "xs \<noteq> []" using that by auto
    then show ?thesis using that by (simp add: flux_corr_Num)
  qed
  ultimately show ?thesis by simp
qed

theorem flfrcsap_one_no_rescale_witness:
  "flux_corr (Num 0.96) (Num 1) [Num 100, Num 110, Num 90]
     = map (\<lambda>x. fsub x (excess_flux (Num 0.96) [Num 100, Num 110, Num 90])) [Num 100, Num 110, Num 90]
   \<and> flux_corr (Num 0.96) (Num 1) (map Num [100, 110, 90]) ! 1 = Num 106"
  using flfrcsap_one_no_rescale [of "Num 0.96" "[Num 100, Num 110, Num 90]" "[100, 110, 90]" "0.96"]
  by (simp add: standard_median_3 excess_flux_def median_flux_def np_median_def np_mean_def fsub_def)



subsection \<open>Inputs the specification wants refused\<close>

text \<open>
  Claim C3 says that \<open>FLFRCSAP = 0\<close> fails with a domain error and leaves no output
  file. The notebook checks nothing: numpy divides by zero without raising, every
  corrected value is an infinity, every normalised value NaN, and the three lines are
  written.
\<close>

theorem zero_FLFRCSAP_counterexample:
  "flux_corr (Num (96 / 100)) (Num 0) [Num 100, Num 110, Num 90] = [PosInf, PosInf, PosInf]
   \<and> flux_err_corr (Num 0) [Num 5, Num 5, Num 5] = [PosInf, PosInf, PosInf]
   \<and> notebook [Num 1, Num 2, Num 3] [Num 100, Num 110, Num 90] [Num 5, Num 5, Num 5]
        (Num (96 / 100)) (Num 0)
      = Inr [format_row (Num 1) NaN NaN, format_row (Num 2) NaN NaN, format_row (Num 3) NaN NaN]"
  by (simp add: notebook_def save_data_def norm_f_def norm_e_def flux_corr_def flux_err_corr_def
      flux_removed_def excess_flux_def median_flux_def np_median_def np_mean_def fsub_def
      signed_inf_def upt_rec)

text \<open>
  Claim C3, amended. With \<open>FLFRCSAP = 0\<close> and \<open>n\<close> samples the notebook raises no
  error: every element of \<open>flux_corr\<close> and of \<open>flux_err_corr\<close> is an infinity or NaN, and
  the export still writes its \<open>n\<close> lines.
\<close>

theorem zero_FLFRCSAP_no_error:
  assumes "length fl = length ts" and "length fe = length ts"
  shows "(\<exists>datos. notebook ts fl fe C (Num 0) = Inr datos \<and> length datos = length ts)
    \<and> (\<forall>x \<in> set (flux_corr C (Num 0) fl). \<not> is_finite x)
    \<and> (\<forall>x \<in> set (flux_err_corr (Num 0) fe). \<not> is_finite x)"
  using assms
  by (simp add: notebook_rows flux_corr_zero_not_finite flux_err_corr_zero_not_finite)

theorem zero_FLFRCSAP_no_error_witness:
  "length [Num 100, Num 110, Num 90] = length [Num 1, Num 2, Num 3]
   \<and> length [Num 5, Num 5, Num 5] = length [Num 1, Num 2, Num 3]
   \<and> (\<exists>datos. notebook [Num 1, Num 2, Num 3] [Num 100, Num 110, Num 90] [Num 5, Num 5, Num 5]
         (Num (96 / 100)) (Num 0) = Inr datos \<and> length datos = 3)
   \<and> \<not> is_finite (flux_corr (Num (96 / 100)) (Num 0) [Num 100, Num 110, Num 90] ! 0)
   \<and> \<not> is_finite (flux_err_corr (Num 0) [Num 5, Num 5, Num 5] ! 0)"
  using zero_FLFRCSAP_no_error [of "[Num 100, Num 110, Num 90]" "[Num 1, Num 2, Num 3]"
      "[Num 5, Num 5, Num 5]" "Num (96 / 100)"]
  by (auto simp: flux_corr_def flux_err_corr_def flux_removed_def numeral_3_eq_3)

text \<open>
  Claim C4 says that an empty flux sequence raises a domain error because its median is
  undefined. \<^verbatim>\<open>np.median\<close> of an empty array returns NaN, and the notebook runs to its
  end.
\<close>

theorem empty_input_counterexample:
  "median_flux [] = NaN
   \<and> notebook [] [] [] (Num (96 / 100)) (Num (93 / 100)) = Inr []"
  by (simp add: median_flux_def np_median_def notebook_def save_data_def)

text \<open>
  Claim C4, amended. On empty input (\<open>n = 0\<close>) the notebook raises no error:
  \<open>median_flux\<close> and \<open>excess_flux\<close> are NaN, the corrected sequences are empty and the
  export writes a file with no line.
\<close>

theorem empty_input_no_error:
  "median_flux [] = NaN \<and> excess_flux C [] = NaN
   \<and> flux_corr C F [] = [] \<and> flux_err_corr F [] = []
   \<and> notebook [] [] [] C F = Inr []"
  by (simp add: median_flux_def excess_flux_def np_median_def notebook_def save_data_def
      flux_corr_def flux_removed_def flux_err_corr_def fmul_NaN_right)

subsection \<open>Normalisation (cell 54)\<close>





subsection \<open>Export (cell 55)\<close>

text \<open>
  Claim C2. For \<open>n\<close> samples the export writes exactly \<open>n\<close> lines, one per sample in
  index order and nothing before the first; line \<open>i\<close> is the time, two spaces, the
  normalised flux, a space, the normalised error, a space and a newline.
\<close>

theorem export_writes_one_line_per_sample:
  assumes "length fl = length ts" and "length fe = length ts"
  shows "\<exists>datos. notebook ts fl fe C F = Inr datos
      \<and> length datos = length ts
      \<and> (\<forall>i < length ts.
            datos ! i = format_row (ts ! i) (norm_f (lc_cbv_corr ts fl fe C F) ! i)
                          (norm_e (lc_cbv_corr ts fl fe C F) ! i)
          \<and> render fmt (datos ! i) =
              fmt (ts ! i) @ ''  '' @ fmt (norm_f (lc_cbv_corr ts fl fe C F) ! i) @ '' ''
                @ fmt (norm_e (lc_cbv_corr ts fl fe C F) ! i) @ [CHR '' '', CHR 0x0A])"
  using assms by (simp add: notebook_rows render_format_row)

theorem export_writes_one_line_per_sample_witness:
  "length [Num 1, Num 3] = length [Num 0, Num 1]
   \<and> length [Num 1, Num 1] = length [Num 0, Num 1]
   \<and> (\<exists>datos. notebook [Num 0, Num 1] [Num 1, Num 3] [Num 1, Num 1] (Num 1) (Num 1) = Inr datos
        \<and> length datos = 2
        \<and> datos ! 0 = format_row (Num 0) (Num (1 / 2)) (Num (1 / 2))
        \<and> datos ! 1 = format_row (Num 1) (Num (3 / 2)) (Num (1 / 2))
        \<and> render (\<lambda>x. ''x'') (datos ! 1) = ''x  x x '' @ [CHR 0x0A])"
  using export_writes_one_line_per_sample [of "[Num 1, Num 3]" "[Num 0, Num 1]" "[Num 1, Num 1]"
      "Num 1" "Num 1" "\<lambda>x. ''x''"]
  by (auto simp: norm_small All_less_Suc numeral_2_eq_2)

subsection \<open>The worked example\<close>



end
